theory Spec2Isabelle
  imports Complex_Main
begin

section \<open>The licence checker (CheckCreator/main.py)\<close>

text \<open>
  The service keeps no state of its own: every operation is a sequence of HTTP POSTs to
  a token endpoint and to a feature-service table. The embedding threads the remote
  side explicitly: a handler takes the server (a function answering one request on the
  remote state) and a connection (the remote state with the list of the requests sent so
  far), and returns its result with the new connection.

  Timestamps are Python floats in the source (\<^verbatim>\<open>datetime.now().timestamp() * 1000\<close>).
  Their type is a parameter \<open>'t\<close> of the handlers, and the two float operations the
  handlers use (adding the lease duration, formatting a date) are taken from a
  \<open>platform\<close> record. The platform \<open>binary64\<close> below gives the addition its meaning on
  IEEE 754 double precision values, which is what a Python float is.
\<close>

subsection \<open>Data\<close>

text \<open>
  The attributes of one feature of the table, as \<^verbatim>\<open>create_item\<close> builds them: the keys
  \<^verbatim>\<open>id\<close>, \<^verbatim>\<open>user_\<close>, \<^verbatim>\<open>start\<close> and \<^verbatim>\<open>end_\<close> of the source.
\<close>

record 't lease =
  id_attr :: string
  user_attr :: "string option"
  start_attr :: 't
  end_attr :: 't

text \<open>The request body of \<^verbatim>\<open>/add\<close> (class \<^verbatim>\<open>Item\<close>); \<^verbatim>\<open>username\<close> defaults to None.\<close>

record Item =
  ID :: string
  username :: "string option"

text \<open>The module globals read from \<^verbatim>\<open>config.ini\<close> and from the portal at start-up.\<close>

record config =
  tokenURL :: string
  username :: string
  password :: string
  tableURL :: string
  duration :: int
  expiration :: int
  creatorLicences :: int

text \<open>
  What \<^verbatim>\<open>requests.post\<close> sends. Each constructor stands for one URL shape and form:
  \<^item> \<open>GenerateToken url user password expiration\<close>: POST to \<open>url\<close> with the credentials,
    referer \<^verbatim>\<open>.\<close> and \<^verbatim>\<open>f=json\<close>;
  \<^item> \<open>DeleteFeatures service token where\<close>: POST to \<^verbatim>\<open><service>/deleteFeatures?token=<token>\<close>;
  \<^item> \<open>Query service token where\<close>: POST to \<^verbatim>\<open><service>/query?token=<token>\<close> with
    \<^verbatim>\<open>outFields=*\<close> and \<^verbatim>\<open>returnGeometry=false\<close>;
  \<^item> \<open>AddFeatures service token features rollbackOnFailure\<close>: POST to
    \<^verbatim>\<open><service>/addFeatures?token=<token>\<close> with the JSON list of features.
\<close>

datatype 't request =
    GenerateToken string string string int
  | DeleteFeatures string string string
  | Query string string string
  | AddFeatures string string "'t lease list" bool

text \<open>
  What comes back: the call raises (\<open>ConnectionError\<close>), or there is a response with a
  status code and a body. The source reads a body only through \<^verbatim>\<open>.json()\<close>,
  \<^verbatim>\<open>.json()['token']\<close> and \<^verbatim>\<open>.json()['features']\<close>.
\<close>

datatype 't content =
    TokenJson string
  | FeaturesJson "'t lease list"
  | OtherJson
  | NotJson

datatype 't reply = ConnectionError | Response nat "'t content"

text \<open>
  How a handler can end without a value: \<^verbatim>\<open>sys.exit()\<close> raises SystemExit, which
  \<^verbatim>\<open>except Exception\<close> does not catch; everything else raised is an Exception.
\<close>

datatype fault = SystemExit | Exception

text \<open>
  What a handler returns is a dictionary literal whose values are strings or None
  (\<^verbatim>\<open>item.username\<close> may be None): the entries in the order the source writes them.
\<close>

datatype jvalue = Str string | Null

type_synonym payload = "(string \<times> jvalue) list"

text \<open>
  The remote state, of any type \<open>'w\<close>, together with the requests sent so far; a server
  answers one request and moves the remote state.
\<close>

record ('t, 'w) connection =
  remote :: 'w
  sent :: "'t request list"

type_synonym ('t, 'w) server = "'t request \<Rightarrow> 'w \<Rightarrow> 't reply \<times> 'w"

text \<open>
  The float operations of the handlers:
  \<^item> \<open>float_add now k\<close> is \<^verbatim>\<open>now + k\<close> for a float \<^verbatim>\<open>now\<close> and an int \<^verbatim>\<open>k\<close>, \<open>None\<close> when
    Python raises OverflowError (the int is too large to convert to a float);
  \<^item> \<open>strftime x\<close> is
    \<^verbatim>\<open>dt.datetime.fromtimestamp(x/1000).strftime('%Y-%m-%d %H:%M:%S')\<close>, \<open>None\<close> when
    that raises (a timestamp out of the range of the platform).
  The handlers are written over any platform; \<open>binary64\<close> is the one of the source.
\<close>

record 't platform =
  float_add :: "'t \<Rightarrow> int \<Rightarrow> 't option"
  strftime :: "'t \<Rightarrow> string option"

subsection \<open>Rendering integers (\<^verbatim>\<open>str\<close> and f-strings)\<close>

fun digits :: "nat \<Rightarrow> string" where
  "digits n = (if n < 10 then [''0123456789'' ! n]
               else digits (n div 10) @ [''0123456789'' ! (n mod 10)])"

declare digits.simps [simp del]

definition str_int :: "int \<Rightarrow> string" where
  "str_int k = (if k < 0 then CHR ''-'' # digits (nat (- k)) else digits (nat k))"

text \<open>The number that a string of decimal digits denotes: \<open>digits\<close> writes it back.\<close>

definition decimal_value :: "string \<Rightarrow> nat" where
  "decimal_value s = foldl (\<lambda>a ch. 10 * a + (of_char ch - 48)) 0 s"

definition opt_str :: "string option \<Rightarrow> jvalue" where
  "opt_str s = (case s of None \<Rightarrow> Null | Some v \<Rightarrow> Str v)"

subsection \<open>Python floats\<close>

text \<open>
  A Python float is an IEEE 754 binary64 value. The finite ones are the rationals
  \<open>m * 2 ^ q\<close> with \<open>\<bar>m\<bar> < 2 ^ 53\<close> and \<open>- 1074 \<le> q \<le> 971\<close>; they are carried here by
  the rational they denote. A NaN cannot come out of a finite clock reading plus an int
  and is left out; the two zeros are not told apart.
\<close>

datatype pyfloat = Finite rat | PosInf | NegInf

text \<open>The order of floats, with which the table compares timestamps.\<close>

instantiation pyfloat :: linorder
begin

definition less_eq_pyfloat :: "pyfloat \<Rightarrow> pyfloat \<Rightarrow> bool" where
  "less_eq_pyfloat x y =
     (case x of
        NegInf \<Rightarrow> True
      | Finite a \<Rightarrow> (case y of NegInf \<Rightarrow> False | Finite b \<Rightarrow> a \<le> b | PosInf \<Rightarrow> True)
      | PosInf \<Rightarrow> y = PosInf)"

definition less_pyfloat :: "pyfloat \<Rightarrow> pyfloat \<Rightarrow> bool" where
  "less_pyfloat x y = (x \<le> y \<and> \<not> y \<le> (x :: pyfloat))"

instance
  by standard (auto simp: less_eq_pyfloat_def less_pyfloat_def split: pyfloat.splits)

end

text \<open>The number of binary digits of a natural number (\<^verbatim>\<open>int.bit_length\<close>).\<close>

fun bit_length :: "nat \<Rightarrow> nat" where
  "bit_length n = (if n = 0 then 0 else Suc (bit_length (n div 2)))"

declare bit_length.simps [simp del]

text \<open>The binary exponent of a positive rational: the \<open>e\<close> with \<open>2 ^ e \<le> x < 2 ^ (e + 1)\<close>.\<close>

definition exponent :: "rat \<Rightarrow> int" where
  "exponent x =
     (if 1 \<le> x then int (bit_length (nat \<lfloor>x\<rfloor>)) - 1
      else - int (bit_length (nat (\<lceil>1 / x\<rceil> - 1))))"

text \<open>Rounding to the nearest integer, a tie going to the even one.\<close>

definition round_half_even :: "rat \<Rightarrow> int" where
  "round_half_even y =
     (let f = \<lfloor>y\<rfloor>; r = y - of_int f
      in if r < 1 / 2 then f else if 1 / 2 < r then f + 1 else if even f then f else f + 1)"

text \<open>
  Rounding a rational to binary64 in the default mode (to nearest, ties to even): the
  result is a multiple of \<open>2 ^ q\<close>, where \<open>q\<close> leaves 53 binary digits and is not below
  the exponent of the subnormal numbers; a result of magnitude \<open>2 ^ 1024\<close> or more is an
  infinity.
\<close>

definition round_binary64 :: "rat \<Rightarrow> pyfloat" where
  "round_binary64 x =
     (if x = 0 then Finite 0
      else
        let q = max (exponent \<bar>x\<bar> - 52) (- 1074);
            y = of_int (round_half_even (x / 2 powi q)) * 2 powi q
        in if 2 ^ 1024 \<le> y then PosInf
           else if y \<le> - (2 ^ 1024) then NegInf
           else Finite y)"

text \<open>
  \<^verbatim>\<open>a + k\<close> for a float \<^verbatim>\<open>a\<close> and an int \<^verbatim>\<open>k\<close>: Python converts the int to a float, which
  raises OverflowError when the int is too large, and adds the two floats, where an
  overflow gives an infinity and raises nothing.
\<close>

definition double_add :: "pyfloat \<Rightarrow> int \<Rightarrow> pyfloat option" where
  "double_add a k =
     (case round_binary64 (of_int k) of
        Finite b \<Rightarrow>
          Some (case a of Finite x \<Rightarrow> round_binary64 (x + b) | PosInf \<Rightarrow> PosInf | NegInf \<Rightarrow> NegInf)
      | PosInf \<Rightarrow> None
      | NegInf \<Rightarrow> None)"

text \<open>The platform of the source; the date format stays a parameter (it depends on the time zone).\<close>

definition binary64 :: "(pyfloat \<Rightarrow> string option) \<Rightarrow> pyfloat platform" where
  "binary64 fmt = \<lparr>float_add = double_add, strftime = fmt\<rparr>"

subsection \<open>The operations\<close>

definition requests_post ::
  "('t, 'w) server \<Rightarrow> 't request \<Rightarrow> ('t, 'w) connection \<Rightarrow> 't reply \<times> ('t, 'w) connection" where
  "requests_post srv req c =
     (case srv req (remote c) of
        (r, w) \<Rightarrow> (r, \<lparr>remote = w, sent = sent c @ [req]\<rparr>))"

text \<open>\<^verbatim>\<open>getToken\<close>: the token of the response body; anything else raises.\<close>

definition getToken ::
  "('t, 'w) server \<Rightarrow> string \<Rightarrow> string \<Rightarrow> string \<Rightarrow> int \<Rightarrow> ('t, 'w) connection
     \<Rightarrow> (fault + string) \<times> ('t, 'w) connection" where
  "getToken srv url tokenUser tokenPassword tokeExpiration c =
     (case requests_post srv (GenerateToken url tokenUser tokenPassword tokeExpiration) c of
        (Response code (TokenJson tokenResult), c1) \<Rightarrow> (Inr tokenResult, c1)
      | (r, c1) \<Rightarrow> (Inl Exception, c1))"

text \<open>
  \<^verbatim>\<open>getRecords\<close>: delete the expired records, then count what the table holds. The
  status code of the delete is checked, the one of the query is not.
\<close>

definition getRecords ::
  "('t, 'w) server \<Rightarrow> config \<Rightarrow> string \<Rightarrow> ('t, 'w) connection
     \<Rightarrow> (fault + int) \<times> ('t, 'w) connection" where
  "getRecords srv cfg featureServiceURL c =
     (case getToken srv (tokenURL cfg) (config.username cfg) (password cfg) (expiration cfg) c of
        (Inl e, c1) \<Rightarrow> (Inl e, c1)
      | (Inr queryToken, c1) \<Rightarrow>
          (case requests_post srv
                  (DeleteFeatures featureServiceURL queryToken ''end_ < CURRENT_TIMESTAMP'') c1 of
             (ConnectionError, c2) \<Rightarrow> (Inl Exception, c2)
           | (Response status_code body, c2) \<Rightarrow>
               if status_code = 200 then
                 (case requests_post srv (Query featureServiceURL queryToken ''1=1'') c2 of
                    (Response code (FeaturesJson queryResult), c3) \<Rightarrow>
                      (Inr (int (length queryResult)), c3)
                  | (r, c3) \<Rightarrow> (Inl Exception, c3))
               else if body = NotJson then (Inl Exception, c2)
               else (Inl SystemExit, c2)))"

definition no_licences :: "Item \<Rightarrow> payload" where
  "no_licences item =
     [(''ID'', Str (ID item)), (''creator'', opt_str (Item.username item)),
      (''status'', Str ''failed''), (''message'', Str ''No creator licences available'')]"

definition add_failed :: "Item \<Rightarrow> payload" where
  "add_failed item =
     [(''ID'', Str (ID item)), (''creator'', opt_str (Item.username item)),
      (''status'', Str ''failed''), (''message'', Str ''Failed to add feature'')]"

definition add_succeeded :: "config \<Rightarrow> Item \<Rightarrow> string \<Rightarrow> string \<Rightarrow> int \<Rightarrow> payload" where
  "add_succeeded cfg item dateNow endNow records =
     [(''ID'', Str (ID item)), (''creator'', opt_str (Item.username item)),
      (''start'', Str dateNow), (''end'', Str endNow),
      (''remaining (minutes)'', Str (str_int (duration cfg))),
      (''status'', Str ''success''),
      (''message'', Str (''remaining creator licences: ''
                          @ str_int (creatorLicences cfg - records - 1)))]"

text \<open>
  The \<^verbatim>\<open>else\<close> branch of \<^verbatim>\<open>create_item\<close>: \<open>now\<close> is the reading of the local clock in
  milliseconds, \<open>records\<close> the count that \<^verbatim>\<open>getRecords\<close> returned.
\<close>

definition add_feature ::
  "('t, 'w) server \<Rightarrow> 't platform \<Rightarrow> config \<Rightarrow> 't \<Rightarrow> Item \<Rightarrow> int \<Rightarrow> ('t, 'w) connection
     \<Rightarrow> (fault + payload) \<times> ('t, 'w) connection" where
  "add_feature srv plat cfg now item records c1 =
     (case float_add plat now (duration cfg * 60000) of
        None \<Rightarrow> (Inl Exception, c1)
      | Some end \<Rightarrow>
          (case getToken srv (tokenURL cfg) (config.username cfg) (password cfg)
                  (expiration cfg) c1 of
             (Inl e, c2) \<Rightarrow> (Inl SystemExit, c2)
           | (Inr token, c2) \<Rightarrow>
               (case requests_post srv
                       (AddFeatures (tableURL cfg) token
                          [\<lparr>id_attr = ID item, user_attr = Item.username item,
                            start_attr = now, end_attr = end\<rparr>]
                          True) c2 of
                  (ConnectionError, c3) \<Rightarrow> (Inl Exception, c3)
                | (Response status_code body, c3) \<Rightarrow>
                    if status_code = 200 then
                      (case strftime plat now of
                         None \<Rightarrow> (Inl Exception, c3)
                       | Some dateNow \<Rightarrow>
                           (case strftime plat end of
                              None \<Rightarrow> (Inl Exception, c3)
                            | Some endNow \<Rightarrow>
                                (Inr (add_succeeded cfg item dateNow endNow records), c3)))
                    else if body = NotJson then (Inl Exception, c3)
                    else (Inr (add_failed item), c3))))"

text \<open>\<^verbatim>\<open>POST /add\<close>.\<close>

definition create_item ::
  "('t, 'w) server \<Rightarrow> 't platform \<Rightarrow> config \<Rightarrow> 't \<Rightarrow> Item \<Rightarrow> ('t, 'w) connection
     \<Rightarrow> (fault + payload) \<times> ('t, 'w) connection" where
  "create_item srv plat cfg now item c =
     (case getRecords srv cfg (tableURL cfg) c of
        (Inl e, c1) \<Rightarrow> (Inl e, c1)
      | (Inr records, c1) \<Rightarrow>
          if creatorLicences cfg \<le> records then (Inr (no_licences item), c1)
          else add_feature srv plat cfg now item records c1)"

definition check_success :: "config \<Rightarrow> int \<Rightarrow> payload" where
  "check_success cfg checkRecords =
     [(''status'', Str ''success''),
      (''licences'', Str (str_int (creatorLicences cfg - checkRecords))),
      (''message'', Str (''there exist '' @ str_int (creatorLicences cfg - checkRecords)
                          @ '' remaining creator licences.''))]"

definition check_failed :: payload where
  "check_failed =
     [(''status'', Str ''failed''), (''licences'', Str ''0''),
      (''message'', Str ''No creator licences available'')]"

text \<open>
  \<^verbatim>\<open>POST /check\<close>: an Exception out of \<^verbatim>\<open>getRecords\<close> is caught and turned into
  \<^verbatim>\<open>sys.exit()\<close>; its own SystemExit passes through.
\<close>

definition check ::
  "('t, 'w) server \<Rightarrow> config \<Rightarrow> ('t, 'w) connection
     \<Rightarrow> (fault + payload) \<times> ('t, 'w) connection" where
  "check srv cfg c =
     (case getRecords srv cfg (tableURL cfg) c of
        (Inl e, c1) \<Rightarrow> (Inl SystemExit, c1)
      | (Inr checkRecords, c1) \<Rightarrow>
          if creatorLicences cfg > checkRecords then (Inr (check_success cfg checkRecords), c1)
          else (Inr check_failed, c1))"

text \<open>The \<^verbatim>\<open>status\<close> entry of what a handler returned, if it returned.\<close>

definition status_of :: "(fault + payload) \<times> 'c \<Rightarrow> jvalue option" where
  "status_of res = (case fst res of Inl e \<Rightarrow> None | Inr p \<Rightarrow> map_of p ''status'')"

subsection \<open>The remote table\<close>

text \<open>
  Modelled from the spec: the feature-service table and the token endpoint are remote
  collaborators whose code is not part of the repository. The table holds the lease
  records and has its own clock; \<^verbatim>\<open>deleteFeatures\<close> removes the records its
  \<^verbatim>\<open>where\<close> clause selects, \<^verbatim>\<open>query\<close> returns the ones it selects,
  \<^verbatim>\<open>addFeatures\<close> appends a batch, and with rollback-on-failure a batch that fails leaves
  nothing behind. \<open>plan\<close> scripts how the next requests are answered: served, refused
  with an error status and a JSON body, refused with an error page that is not JSON
  (\<open>Garbled\<close>), or not answered at all, in which case the request does not reach the table
  and the call raises. Past the end of the plan every request is served.
\<close>

datatype behaviour = Served | Refused | Garbled | Unreachable

record 't table =
  features :: "'t lease list"
  CURRENT_TIMESTAMP :: 't
  plan :: "behaviour list"

text \<open>
  Modelled from the spec: the two \<^verbatim>\<open>where\<close> clauses the service sends, read as
  predicates on a record at the table's current time.
\<close>

definition sql_where :: "string \<Rightarrow> ('t::linorder \<Rightarrow> 't lease \<Rightarrow> bool) option" where
  "sql_where w =
     (if w = ''end_ < CURRENT_TIMESTAMP'' then Some (\<lambda>now l. end_attr l < now)
      else if w = ''1=1'' then Some (\<lambda>now l. True)
      else None)"

text \<open>Modelled from the spec: a request the remote side serves.\<close>

fun served :: "'t::linorder request \<Rightarrow> 't table \<Rightarrow> 't reply \<times> 't table" where
  "served (GenerateToken url u p e) t = (Response 200 (TokenJson ''token''), t)"
| "served (DeleteFeatures svc tok w) t =
     (case sql_where w of
        None \<Rightarrow> (Response 400 OtherJson, t)
      | Some sel \<Rightarrow>
          (Response 200 OtherJson,
           t\<lparr>features := filter (\<lambda>l. \<not> sel (CURRENT_TIMESTAMP t) l) (features t)\<rparr>))"
| "served (Query svc tok w) t =
     (case sql_where w of
        None \<Rightarrow> (Response 400 OtherJson, t)
      | Some sel \<Rightarrow>
          (Response 200 (FeaturesJson (filter (sel (CURRENT_TIMESTAMP t)) (features t))), t))"
| "served (AddFeatures svc tok fs rollbackOnFailure) t =
     (Response 200 OtherJson, t\<lparr>features := features t @ fs\<rparr>)"

text \<open>
  Modelled from the spec: a request the remote side refuses. It is the rollback that makes
  a failed batch insert atomic: with rollback-on-failure nothing of the batch stays,
  without it what the batch wrote before it failed does (the failure is taken to come
  after the write).
\<close>

fun refused :: "'t request \<Rightarrow> 't table \<Rightarrow> 't reply \<times> 't table" where
  "refused (AddFeatures svc tok fs rollbackOnFailure) t =
     (Response 500 OtherJson,
      if rollbackOnFailure then t else t\<lparr>features := features t @ fs\<rparr>)"
| "refused req t = (Response 500 OtherJson, t)"

definition upcoming :: "behaviour list \<Rightarrow> behaviour" where
  "upcoming p = (case p of [] \<Rightarrow> Served | b # bs \<Rightarrow> b)"

definition feature_service :: "'t::linorder request \<Rightarrow> 't table \<Rightarrow> 't reply \<times> 't table" where
  "feature_service req t =
     (case upcoming (plan t) of
        Served \<Rightarrow> served req (t\<lparr>plan := tl (plan t)\<rparr>)
      | Refused \<Rightarrow> refused req (t\<lparr>plan := tl (plan t)\<rparr>)
      | Garbled \<Rightarrow> (Response 502 NotJson, snd (refused req (t\<lparr>plan := tl (plan t)\<rparr>)))
      | Unreachable \<Rightarrow> (ConnectionError, t\<lparr>plan := tl (plan t)\<rparr>))"

text \<open>The next \<open>n\<close> requests are served.\<close>

fun serves :: "nat \<Rightarrow> behaviour list \<Rightarrow> bool" where
  "serves 0 p = True"
| "serves (Suc n) p = (upcoming p = Served \<and> serves n (tl p))"

text \<open>The records whose \<^verbatim>\<open>end_\<close> is not earlier than the table's current time.\<close>

definition unexpired :: "'t::linorder table \<Rightarrow> 't lease list" where
  "unexpired t = filter (\<lambda>l. \<not> end_attr l < CURRENT_TIMESTAMP t) (features t)"

text \<open>
  Modelled from the spec: a lease is active iff its \<^verbatim>\<open>end\<close> is strictly greater than
  the current time.
\<close>

definition lease_active :: "'t::linorder \<Rightarrow> 't lease \<Rightarrow> bool" where
  "lease_active now l = (now < end_attr l)"

subsection \<open>Scenarios\<close>

text \<open>
  Concrete inputs for the examples below. Timestamps are whole milliseconds, on which the
  float addition is exact; the stand-in for the date format prints the number.
\<close>

definition cfg0 :: config where
  "cfg0 = \<lparr>tokenURL = ''https://portal/sharing/rest/generateToken'', username = ''admin'',
            password = ''secret'', tableURL = ''https://portal/server/rest/services/leases/0'',
            duration = 30, expiration = 60, creatorLicences = 2\<rparr>"

definition int_platform :: "int platform" where
  "int_platform = \<lparr>float_add = (\<lambda>a k. Some (a + k)), strftime = (\<lambda>a. Some (str_int a))\<rparr>"

definition full_table :: "int table" where
  "full_table =
     \<lparr>features = [\<lparr>id_attr = ''u1'', user_attr = Some ''ann'', start_attr = 0, end_attr = 5000\<rparr>,
                  \<lparr>id_attr = ''u2'', user_attr = None, start_attr = 500, end_attr = 9000\<rparr>],
      CURRENT_TIMESTAMP = 1000, plan = []\<rparr>"

definition u3 :: Item where
  "u3 = \<lparr>ID = ''u3'', username = Some ''cy''\<rparr>"

definition cfg5 :: config where
  "cfg5 = cfg0\<lparr>creatorLicences := 5\<rparr>"

definition mixed_table :: "int table" where
  "mixed_table =
     \<lparr>features = [\<lparr>id_attr = ''old'', user_attr = None, start_attr = 0, end_attr = 9000\<rparr>,
                  \<lparr>id_attr = ''new'', user_attr = None, start_attr = 0, end_attr = 3610000\<rparr>],
      CURRENT_TIMESTAMP = 10000, plan = []\<rparr>"

definition empty_table :: "int table" where
  "empty_table = \<lparr>features = [], CURRENT_TIMESTAMP = 1000, plan = []\<rparr>"

definition u1 :: Item where
  "u1 = \<lparr>ID = ''u1'', username = None\<rparr>"

definition refusing_table :: "int table" where
  "refusing_table = \<lparr>features = [], CURRENT_TIMESTAMP = 1000,
                      plan = [Served, Served, Served, Served, Refused]\<rparr>"

definition cfg1 :: config where
  "cfg1 = cfg0\<lparr>creatorLicences := 1\<rparr>"

definition boundary_table :: "int table" where
  "boundary_table =
     \<lparr>features = [\<lparr>id_attr = ''u1'', user_attr = None, start_attr = 0, end_attr = 1000\<rparr>],
      CURRENT_TIMESTAMP = 1000, plan = []\<rparr>"

definition stale_table :: "int table" where
  "stale_table =
     \<lparr>features = [\<lparr>id_attr = ''a'', user_attr = None, start_attr = 0, end_attr = 999\<rparr>,
                  \<lparr>id_attr = ''b'', user_attr = None, start_attr = 0, end_attr = 1000\<rparr>,
                  \<lparr>id_attr = ''c'', user_attr = None, start_attr = 0, end_attr = 1001\<rparr>,
                  \<lparr>id_attr = ''a'', user_attr = None, start_attr = 0, end_attr = 10\<rparr>],
      CURRENT_TIMESTAMP = 1000, plan = []\<rparr>"


text \<open>
  A table read by its own clock, for requests whose local clock reading is a float with a
  fractional part; the stand-in for the date format prints a fixed word.
\<close>

definition idle_table :: "pyfloat table" where
  "idle_table = \<lparr>features = [], CURRENT_TIMESTAMP = Finite 1762180000000, plan = []\<rparr>"

definition date_stub :: "pyfloat \<Rightarrow> string option" where
  "date_stub x = Some ''(date)''"

section \<open>Properties\<close>

subsection \<open>Auxiliary facts\<close>

lemma digit_char_value: "d < 10 \<Longrightarrow> (of_char (''0123456789'' ! d) :: nat) = 48 + d"
proof -
  assume "d < 10"
  then have "d \<in> {0, 1, 2, 3, 4, 5, 6, 7, 8, 9}" by auto
  then show ?thesis by (auto simp: nth_Cons')
qed

lemma decimal_value_digits: "decimal_value (digits n) = n"
proof (induction n rule: digits.induct)
  case (1 n)
  show ?case
  proof (cases "n < 10")
    case True
    then show ?thesis
      by (subst digits.simps) (simp add: decimal_value_def digit_char_value)
  next
    case False
    with 1 have ih: "decimal_value (digits (n div 10)) = n div 10" by simp
    have m: "n mod 10 < 10" by simp
    show ?thesis
      using False ih digit_char_value [OF m]
      by (subst digits.simps) (simp add: decimal_value_def)
  qed
qed

lemma getRecords_sent:
  assumes "getRecords srv cfg url c = (Inr A, c1)"
  shows "\<exists>tok. sent c1 = sent c @
           [GenerateToken (tokenURL cfg) (config.username cfg) (password cfg) (expiration cfg),
            DeleteFeatures url tok ''end_ < CURRENT_TIMESTAMP'', Query url tok ''1=1'']"
  using assms
  by (auto simp: getRecords_def getToken_def requests_post_def
           split: prod.splits sum.splits reply.splits content.splits if_splits)

lemma add_feature_not_denial:
  "fst (add_feature srv plat cfg now item A c1) \<noteq> Inr (no_licences item)"
  by (auto simp: add_feature_def no_licences_def add_failed_def add_succeeded_def
           split: prod.splits sum.splits reply.splits content.splits if_splits option.splits)

lemma getToken_table:
  assumes "upcoming (plan t) = Served"
  shows "getToken feature_service url u p e \<lparr>remote = t, sent = s\<rparr> =
           (Inr ''token'', \<lparr>remote = t\<lparr>plan := tl (plan t)\<rparr>, sent = s @ [GenerateToken url u p e]\<rparr>)"
  using assms by (simp add: getToken_def requests_post_def feature_service_def)

lemma getRecords_table:
  assumes "serves 3 (plan t)"
  shows "getRecords feature_service cfg url \<lparr>remote = t, sent = s\<rparr> =
           (Inr (int (length (unexpired t))),
            \<lparr>remote = t\<lparr>features := unexpired t, plan := tl (tl (tl (plan t)))\<rparr>,
             sent = s @ [GenerateToken (tokenURL cfg) (config.username cfg) (password cfg)
                           (expiration cfg),
                         DeleteFeatures url ''token'' ''end_ < CURRENT_TIMESTAMP'',
                         Query url ''token'' ''1=1'']\<rparr>)"
proof -
  from assms have p: "upcoming (plan t) = Served" "upcoming (tl (plan t)) = Served"
      "upcoming (tl (tl (plan t))) = Served"
    by (simp_all add: eval_nat_numeral)
  show ?thesis
    by (simp add: getRecords_def getToken_table p requests_post_def feature_service_def
          sql_where_def unexpired_def)
qed

lemma add_feature_run:
  assumes "float_add plat now (duration cfg * 60000) = Some e"
    and "getToken srv (tokenURL cfg) (config.username cfg) (password cfg) (expiration cfg) c1
           = (Inr token, c2)"
    and "requests_post srv
           (AddFeatures (tableURL cfg) token
              [\<lparr>id_attr = ID item, user_attr = Item.username item, start_attr = now, end_attr = e\<rparr>]
              True) c2 = (r, c3)"
  shows "add_feature srv plat cfg now item A c1 =
           (case r of
              ConnectionError \<Rightarrow> (Inl Exception, c3)
            | Response status_code body \<Rightarrow>
                if status_code = 200 then
                  (case strftime plat now of
                     None \<Rightarrow> (Inl Exception, c3)
                   | Some dateNow \<Rightarrow>
                       (case strftime plat e of
                          None \<Rightarrow> (Inl Exception, c3)
                        | Some endNow \<Rightarrow> (Inr (add_succeeded cfg item dateNow endNow A), c3)))
                else if body = NotJson then (Inl Exception, c3)
                else (Inr (add_failed item), c3))"
  using assms by (simp add: add_feature_def split: reply.splits)


lemma requests_post_table:
  "requests_post feature_service req \<lparr>remote = t, sent = s\<rparr> =
     (fst (feature_service req t), \<lparr>remote = snd (feature_service req t), sent = s @ [req]\<rparr>)"
  by (simp add: requests_post_def split: prod.splits)

lemma getToken_sent:
  assumes "getToken srv url u p e c = (r, c1)"
  shows "sent c1 = sent c @ [GenerateToken url u p e]"
  using assms
  by (auto simp: getToken_def requests_post_def
           split: prod.splits reply.splits content.splits)

lemma requests_post_sent:
  assumes "requests_post srv req c = (r, c1)"
  shows "sent c1 = sent c @ [req]"
  using assms by (auto simp: requests_post_def split: prod.splits)

lemma unexpired_purged [simp]:
  "unexpired (t\<lparr>features := unexpired t, plan := p\<rparr>) = unexpired t"
  by (simp add: unexpired_def)


text \<open>Binary64 rounding leaves a binary64 value as it is.\<close>

lemma bit_length_upper: "n < 2 ^ bit_length n"
proof (induction n rule: bit_length.induct)
  case (1 n)
  show ?case
  proof (cases "n = 0")
    case True
    then show ?thesis by (simp add: bit_length.simps)
  next
    case False
    with 1 have "n div 2 < 2 ^ bit_length (n div 2)" by simp
    then have "n < 2 * 2 ^ bit_length (n div 2)" by linarith
    with False show ?thesis by (subst bit_length.simps) simp
  qed
qed

lemma bit_length_lower: "0 < n \<Longrightarrow> 2 ^ (bit_length n - 1) \<le> n"
proof (induction n rule: bit_length.induct)
  case (1 n)
  then have n: "n \<noteq> 0" by simp
  show ?case
  proof (cases "n div 2 = 0")
    case True
    then have "bit_length n = 1"
      using n by (subst bit_length.simps) (simp add: bit_length.simps)
    with 1(2) show ?thesis by simp
  next
    case False
    with 1(1) n have ih: "2 ^ (bit_length (n div 2) - 1) \<le> n div 2" by simp
    from False have pos: "0 < bit_length (n div 2)"
      by (subst bit_length.simps) simp
    have "bit_length n = Suc (bit_length (n div 2))"
      using n by (subst bit_length.simps) simp
    then have "(2::nat) ^ (bit_length n - 1) = 2 * 2 ^ (bit_length (n div 2) - 1)"
      using pos by (cases "bit_length (n div 2)") simp_all
    also have "\<dots> \<le> 2 * (n div 2)" using ih by simp
    also have "\<dots> \<le> n" by simp
    finally show ?thesis .
  qed
qed

lemma bit_length_pos: "0 < n \<Longrightarrow> 0 < bit_length n"
  by (subst bit_length.simps) simp

lemma exponent_lower:
  assumes "0 < y"
  shows "2 powi (exponent y) \<le> y"
proof (cases "1 \<le> y")
  case True
  let ?n = "nat \<lfloor>y\<rfloor>"
  from True have n: "0 < ?n" by simp
  have e: "exponent y = int (bit_length ?n - 1)"
    using True bit_length_pos [OF n] by (simp add: exponent_def)
  have "(2::rat) powi (exponent y) = 2 ^ (bit_length ?n - 1)"
    by (simp add: e)
  also have "\<dots> = of_nat (2 ^ (bit_length ?n - 1))" by simp
  also have "\<dots> \<le> of_nat ?n"
    using bit_length_lower [OF n] by (simp only: of_nat_le_iff)
  also have "\<dots> = of_int \<lfloor>y\<rfloor>" using True by simp
  also have "\<dots> \<le> y" by simp
  finally show ?thesis .
next
  case False
  let ?c = "\<lceil>1 / y\<rceil>"
  let ?n = "nat (?c - 1)"
  let ?k = "bit_length ?n"
  from False assms have "1 < 1 / y" by simp
  then have c: "2 \<le> ?c" by linarith
  have "int ?n < 2 ^ ?k"
    using bit_length_upper [of ?n] by (metis of_nat_less_iff of_nat_numeral of_nat_power)
  moreover have "int ?n = ?c - 1" using c by (intro nat_0_le) linarith
  ultimately have "?c \<le> 2 ^ ?k" by linarith
  then have "(of_int ?c :: rat) \<le> 2 ^ ?k"
    by (metis of_int_le_iff of_int_numeral of_int_power)
  moreover have "1 / y \<le> of_int ?c" by simp
  ultimately have "1 / y \<le> 2 ^ ?k" by linarith
  then have "1 / 2 ^ ?k \<le> y"
    using assms by (simp add: field_simps)
  moreover have "(2::rat) powi (exponent y) = 1 / 2 ^ ?k"
    using False by (simp add: exponent_def power_int_minus field_simps)
  ultimately show ?thesis by simp
qed

lemma round_half_even_of_int: "round_half_even (of_int n) = n"
  by (simp add: round_half_even_def)

lemma round_binary64_exact:
  assumes x: "x = of_int m * 2 powi q"
    and m: "\<bar>m\<bar> < 2 ^ 53"
    and q: "- 1074 \<le> q" "q \<le> 971"
  shows "round_binary64 x = Finite x"
proof (cases "x = 0")
  case True
  then show ?thesis by (simp add: round_binary64_def)
next
  case False
  define e where "e = exponent \<bar>x\<bar>"
  define q' where "q' = max (e - 52) (- 1074)"
  have pos: "0 < \<bar>x\<bar>" using False by simp
  have p2: "(0::rat) < 2 powi q" by simp
  have "\<bar>x\<bar> = of_int \<bar>m\<bar> * 2 powi q"
    by (simp add: x abs_mult)
  also have "\<dots> < 2 ^ 53 * 2 powi q"
  proof -
    from m have "(of_int \<bar>m\<bar> :: rat) < of_int (2 ^ 53)" by (simp only: of_int_less_iff)
    then have "(of_int \<bar>m\<bar> :: rat) < 2 ^ 53" by simp
    then show ?thesis using p2 by (simp only: mult_strict_right_mono)
  qed
  also have "\<dots> = 2 powi (53 + q)"
    by (simp add: power_int_add)
  finally have up: "\<bar>x\<bar> < 2 powi (53 + q)" .
  from exponent_lower [OF pos] up have lt: "(2::rat) powi e < 2 powi (53 + q)"
    by (simp add: e_def)
  have "e < 53 + q"
  proof (rule ccontr)
    assume "\<not> e < 53 + q"
    then have "(2::rat) powi (53 + q) \<le> 2 powi e"
      by (intro power_int_increasing) simp_all
    with lt show False by simp
  qed
  with q have qq: "q' \<le> q" by (simp add: q'_def)
  define d where "d = nat (q - q')"
  have dq: "q = q' + int d" using qq by (simp add: d_def)
  have pw: "(2::rat) powi q = 2 powi q' * 2 ^ d"
    by (subst dq) (simp add: power_int_add)
  have xq: "x = of_int (m * 2 ^ d) * 2 powi q'"
    by (simp add: x pw)
  have nz: "(2::rat) powi q' \<noteq> 0" by simp
  have dv: "x / 2 powi q' = of_int (m * 2 ^ d)"
    by (subst xq) simp
  have rt: "of_int (round_half_even (x / 2 powi q')) * 2 powi q' = x"
    unfolding dv round_half_even_of_int using xq by simp
  have "(2::rat) powi (53 + q) \<le> 2 powi 1024"
    using q by (intro power_int_increasing) simp_all
  also have "\<dots> = 2 ^ 1024" by (simp only: power_int_numeral)
  finally have "\<bar>x\<bar> < 2 ^ 1024"
    using up by linarith
  then have rng: "\<not> 2 ^ 1024 \<le> x" "\<not> x \<le> - (2 ^ 1024)" by linarith+
  have "round_binary64 x =
          (let y = of_int (round_half_even (x / 2 powi q')) * 2 powi q'
           in if 2 ^ 1024 \<le> y then PosInf else if y \<le> - (2 ^ 1024) then NegInf else Finite y)"
    using False unfolding round_binary64_def q'_def e_def Let_def by (simp only: if_False)
  also have "\<dots> = Finite x"
    unfolding Let_def rt using rng by (simp only: if_False)
  finally show ?thesis .
qed


lemma bit_length_eq:
  assumes "2 ^ k \<le> n" and "n < 2 ^ Suc k"
  shows "bit_length n = Suc k"
proof -
  from assms(1) have pos: "0 < n" by (metis less_le_trans zero_less_numeral zero_less_power)
  have "(2::nat) ^ k < 2 ^ bit_length n"
    using assms(1) bit_length_upper [of n] by linarith
  then have a: "k < bit_length n" by simp
  have "(2::nat) ^ (bit_length n - 1) < 2 ^ Suc k"
    using assms(2) bit_length_lower [OF pos] by linarith
  then have "bit_length n - 1 < Suc k" by (simp only: power_strict_increasing_iff one_less_numeral_iff semiring_norm)
  with a show ?thesis by linarith
qed

lemma double_add_exact:
  assumes "\<bar>k\<bar> < 2 ^ 53"
    and "x + of_int k = of_int m * 2 powi q"
    and "\<bar>m\<bar> < 2 ^ 53" and "- 1074 \<le> q" and "q \<le> 971"
  shows "double_add (Finite x) k = Some (Finite (x + of_int k))"
proof -
  have "round_binary64 (of_int k) = Finite (of_int k)"
    by (rule round_binary64_exact [of _ k 0]) (use assms(1) in simp_all)
  moreover have "round_binary64 (x + of_int k) = Finite (x + of_int k)"
    by (rule round_binary64_exact [OF assms(2,3,4,5)])
  ultimately show ?thesis by (simp add: double_add_def)
qed

lemma snd_add_feature:
  assumes "float_add plat now (duration cfg * 60000) = Some e"
    and "getToken srv (tokenURL cfg) (config.username cfg) (password cfg) (expiration cfg) c1
           = (Inr token, c2)"
  shows "snd (add_feature srv plat cfg now item A c1) =
           snd (requests_post srv
                  (AddFeatures (tableURL cfg) token
                     [\<lparr>id_attr = ID item, user_attr = Item.username item, start_attr = now,
                       end_attr = e\<rparr>] True) c2)"
  using assms by (simp add: add_feature_def split: prod.splits reply.splits option.splits)

subsection \<open>Admission\<close>

text \<open>
  C1. Let \<open>A\<close> be the count that \<^verbatim>\<open>getRecords\<close> returned for the request. \<^verbatim>\<open>/add\<close> answers
  with the denial "No creator licences available" exactly when \<open>A < creatorLicences\<close>
  fails, and otherwise goes on to the insert; \<^verbatim>\<open>/check\<close> answers with status success
  exactly when \<open>A < creatorLicences\<close>. At \<open>A = creatorLicences\<close> both answer with status
  failed.
\<close>

theorem admission_iff_count_below_capacity:
  assumes "getRecords srv cfg (tableURL cfg) c = (Inr A, c1)"
  shows "(fst (create_item srv plat cfg now item c) = Inr (no_licences item))
           = (\<not> A < creatorLicences cfg)
       \<and> (status_of (check srv cfg c) = Some (Str ''success'')) = (A < creatorLicences cfg)
       \<and> (A < creatorLicences cfg \<longrightarrow>
            create_item srv plat cfg now item c = add_feature srv plat cfg now item A c1)
       \<and> (A = creatorLicences cfg \<longrightarrow>
            status_of (create_item srv plat cfg now item c) = Some (Str ''failed'')
            \<and> status_of (check srv cfg c) = Some (Str ''failed''))"
  using assms add_feature_not_denial[of srv plat cfg now item A c1]
  by (auto simp: create_item_def check_def status_of_def no_licences_def check_failed_def
        check_success_def)

text \<open>Two unexpired leases and two licences: both endpoints deny.\<close>

theorem admission_iff_count_below_capacity_witness:
  "fst (getRecords feature_service cfg0 (tableURL cfg0) \<lparr>remote = full_table, sent = []\<rparr>) = Inr 2
   \<and> creatorLicences cfg0 = 2
   \<and> status_of (create_item feature_service int_platform cfg0 1000 u3
                  \<lparr>remote = full_table, sent = []\<rparr>) = Some (Str ''failed'')
   \<and> status_of (check feature_service cfg0 \<lparr>remote = full_table, sent = []\<rparr>)
       = Some (Str ''failed'')"
proof -
  let ?c = "\<lparr>remote = full_table, sent = []\<rparr> :: (int, int table) connection"
  have c: "creatorLicences cfg0 = 2" by (simp add: cfg0_def)
  have f: "fst (getRecords feature_service cfg0 (tableURL cfg0) ?c) = Inr 2"
    by (simp add: getRecords_table full_table_def unexpired_def upcoming_def eval_nat_numeral)
  then have h: "getRecords feature_service cfg0 (tableURL cfg0) ?c =
     (Inr 2, snd (getRecords feature_service cfg0 (tableURL cfg0) ?c))"
    by (metis prod.collapse)
  from admission_iff_count_below_capacity [OF h, of int_platform 1000 u3] c f
  show ?thesis by simp
qed

subsection \<open>Purge and count\<close>

text \<open>
  C2. On a table that serves the three requests, \<^verbatim>\<open>getRecords\<close> sends the token request,
  then the delete with the clause \<^verbatim>\<open>end_ < CURRENT_TIMESTAMP\<close>, then the query for all
  records. The clause is evaluated by the table at its own current time (the operation
  takes no local clock): exactly the records whose \<^verbatim>\<open>end_\<close> is earlier are removed, the
  others stay as they are, and the value returned is their number, as an integer.
\<close>

theorem getRecords_purges_then_counts:
  assumes "serves 3 (plan t)"
  shows "getRecords feature_service cfg url \<lparr>remote = t, sent = s\<rparr> =
           (Inr (int (length (filter (\<lambda>l. \<not> end_attr l < CURRENT_TIMESTAMP t) (features t)))),
            \<lparr>remote = t\<lparr>features := filter (\<lambda>l. \<not> end_attr l < CURRENT_TIMESTAMP t) (features t),
                         plan := tl (tl (tl (plan t)))\<rparr>,
             sent = s @ [GenerateToken (tokenURL cfg) (config.username cfg) (password cfg)
                           (expiration cfg),
                         DeleteFeatures url ''token'' ''end_ < CURRENT_TIMESTAMP'',
                         Query url ''token'' ''1=1'']\<rparr>)"
  using getRecords_table [OF assms, of cfg url s] by (simp add: unexpired_def)

text \<open>One record expired a second ago, one expires in an hour: one record is left and counted.\<close>

theorem getRecords_purges_then_counts_witness:
  "serves 3 (plan mixed_table)
   \<and> fst (getRecords feature_service cfg5 (tableURL cfg5) \<lparr>remote = mixed_table, sent = []\<rparr>) = Inr 1
   \<and> features (remote (snd (getRecords feature_service cfg5 (tableURL cfg5)
                               \<lparr>remote = mixed_table, sent = []\<rparr>)))
       = [\<lparr>id_attr = ''new'', user_attr = None, start_attr = 0, end_attr = 3610000\<rparr>]"
proof -
  have h: "serves 3 (plan mixed_table)"
    by (simp add: mixed_table_def upcoming_def eval_nat_numeral)
  from getRecords_purges_then_counts [OF h, of cfg5 "tableURL cfg5" "[]"] h
  show ?thesis by (simp add: mixed_table_def)
qed

text \<open>
  C9. The purge of \<^verbatim>\<open>getRecords\<close> leaves exactly the records whose \<^verbatim>\<open>end_\<close> is not
  earlier than the table's current time, in their order and with their multiplicity; a
  second \<^verbatim>\<open>getRecords\<close> at the same table time leaves the same records as the first.
\<close>

theorem purge_exact_and_idempotent:
  assumes "serves 6 (plan t)"
  shows "features (remote (snd (getRecords feature_service cfg url \<lparr>remote = t, sent = s\<rparr>)))
           = filter (\<lambda>l. \<not> end_attr l < CURRENT_TIMESTAMP t) (features t)
       \<and> features (remote (snd (getRecords feature_service cfg url
                     (snd (getRecords feature_service cfg url \<lparr>remote = t, sent = s\<rparr>)))))
           = features (remote (snd (getRecords feature_service cfg url \<lparr>remote = t, sent = s\<rparr>)))"
proof -
  from assms have a: "serves 3 (plan t)" and b: "serves 3 (tl (tl (tl (plan t))))"
    by (simp_all add: eval_nat_numeral)
  show ?thesis
    using b by (simp add: getRecords_table [OF a] getRecords_table) (simp add: unexpired_def)
qed

text \<open>Records that end before, at and after the current time, and a duplicate identifier.\<close>

theorem purge_exact_and_idempotent_witness:
  "features (remote (snd (getRecords feature_service cfg0 (tableURL cfg0)
                            \<lparr>remote = stale_table, sent = []\<rparr>)))
     = [\<lparr>id_attr = ''b'', user_attr = None, start_attr = 0, end_attr = 1000\<rparr>,
        \<lparr>id_attr = ''c'', user_attr = None, start_attr = 0, end_attr = 1001\<rparr>]
   \<and> features (remote (snd (getRecords feature_service cfg0 (tableURL cfg0)
                 (snd (getRecords feature_service cfg0 (tableURL cfg0)
                         \<lparr>remote = stale_table, sent = []\<rparr>)))))
     = [\<lparr>id_attr = ''b'', user_attr = None, start_attr = 0, end_attr = 1000\<rparr>,
        \<lparr>id_attr = ''c'', user_attr = None, start_attr = 0, end_attr = 1001\<rparr>]"
proof -
  have h: "serves 6 (plan stale_table)"
    by (simp add: stale_table_def upcoming_def eval_nat_numeral)
  from purge_exact_and_idempotent [OF h, of cfg0 "tableURL cfg0" "[]"]
  show ?thesis by (simp add: stale_table_def)
qed

text \<open>
  C10. A record whose \<^verbatim>\<open>end_\<close> equals the table's current time is not active in the
  sense of the data model (active iff \<^verbatim>\<open>end\<close> is strictly greater than the current time),
  yet the purge keeps it and \<^verbatim>\<open>getRecords\<close> counts it: the count exceeds the number of
  active leases, and \<^verbatim>\<open>/add\<close> is denied already when the licences are one more than the
  active leases.
\<close>

theorem lease_ending_now_is_counted:
  assumes "serves 3 (plan t)"
    and "l \<in> set (features t)"
    and "end_attr l = CURRENT_TIMESTAMP t"
  shows "\<not> lease_active (CURRENT_TIMESTAMP t) l
       \<and> l \<in> set (features (remote (snd (getRecords feature_service cfg (tableURL cfg)
                                           \<lparr>remote = t, sent = s\<rparr>))))
       \<and> fst (getRecords feature_service cfg (tableURL cfg) \<lparr>remote = t, sent = s\<rparr>)
           = Inr (int (length (unexpired t)))
       \<and> length (filter (lease_active (CURRENT_TIMESTAMP t)) (features t)) < length (unexpired t)
       \<and> (creatorLicences cfg
             \<le> int (length (filter (lease_active (CURRENT_TIMESTAMP t)) (features t))) + 1
           \<longrightarrow> fst (create_item feature_service plat cfg now item \<lparr>remote = t, sent = s\<rparr>)
                 = Inr (no_licences item))"
proof -
  let ?now = "CURRENT_TIMESTAMP t"
  have na: "\<not> lease_active ?now l"
    using assms(3) by (simp add: lease_active_def)
  have lu: "l \<in> set (unexpired t)"
    using assms(2,3) by (simp add: unexpired_def)
  have "filter (lease_active ?now) (features t) = filter (lease_active ?now) (unexpired t)"
    by (auto simp: unexpired_def lease_active_def intro: filter_cong)
  then have lt: "length (filter (lease_active ?now) (features t)) < length (unexpired t)"
    using length_filter_less [of l "unexpired t" "lease_active ?now"] lu na by simp
  have deny: "creatorLicences cfg \<le> int (length (filter (lease_active ?now) (features t))) + 1
           \<longrightarrow> fst (create_item feature_service plat cfg now item \<lparr>remote = t, sent = s\<rparr>)
                 = Inr (no_licences item)"
    using lt by (simp add: create_item_def getRecords_table [OF assms(1)])
  show ?thesis
    using na lu lt deny by (simp add: getRecords_table [OF assms(1)])
qed

text \<open>One licence, one lease that ends at the current time: no lease is active, the request is denied.\<close>

theorem lease_ending_now_is_counted_witness:
  "fst (getRecords feature_service cfg1 (tableURL cfg1) \<lparr>remote = boundary_table, sent = []\<rparr>)
     = Inr 1
   \<and> filter (lease_active (CURRENT_TIMESTAMP boundary_table)) (features boundary_table) = []
   \<and> creatorLicences cfg1 = 1
   \<and> fst (create_item feature_service int_platform cfg1 1000 u1
             \<lparr>remote = boundary_table, sent = []\<rparr>) = Inr (no_licences u1)"
proof -
  let ?l = "\<lparr>id_attr = ''u1'', user_attr = None, start_attr = 0, end_attr = 1000\<rparr> :: int lease"
  have h1: "serves 3 (plan boundary_table)"
    by (simp add: boundary_table_def upcoming_def eval_nat_numeral)
  have h2: "?l \<in> set (features boundary_table)" by (simp add: boundary_table_def)
  have h3: "end_attr ?l = CURRENT_TIMESTAMP boundary_table" by (simp add: boundary_table_def)
  have a: "filter (lease_active (CURRENT_TIMESTAMP boundary_table)) (features boundary_table) = []"
    by (simp add: boundary_table_def lease_active_def)
  have u: "unexpired boundary_table = [?l]" by (simp add: boundary_table_def unexpired_def)
  have c: "creatorLicences cfg1 = 1" by (simp add: cfg1_def)
  from lease_ending_now_is_counted [OF h1 h2 h3, of cfg1 "[]" int_platform 1000 u1] a u c
  show ?thesis by simp
qed

subsection \<open>The endpoints\<close>

text \<open>
  C4. With \<open>A\<close> the count that \<^verbatim>\<open>getRecords\<close> returned, \<^verbatim>\<open>/check\<close> answers with status
  success and \<^verbatim>\<open>licences\<close> the decimal rendering of \<open>creatorLicences - A\<close> when
  \<open>A < creatorLicences\<close>, and with status failed and \<^verbatim>\<open>licences\<close> \<^verbatim>\<open>0\<close> otherwise.
\<close>

theorem check_reports_free_licences:
  assumes "getRecords srv cfg (tableURL cfg) c = (Inr A, c1)"
  shows "check srv cfg c =
           (Inr (if A < creatorLicences cfg then check_success cfg A else check_failed), c1)
       \<and> map_of (check_success cfg A) ''status'' = Some (Str ''success'')
       \<and> map_of (check_success cfg A) ''licences'' = Some (Str (str_int (creatorLicences cfg - A)))
       \<and> map_of check_failed ''status'' = Some (Str ''failed'')
       \<and> map_of check_failed ''licences'' = Some (Str ''0'')"
  using assms by (simp add: check_def check_success_def check_failed_def)

text \<open>Five licences, one lease expired a second ago and one expiring in an hour: four licences left.\<close>

theorem check_reports_free_licences_witness:
  "fst (getRecords feature_service cfg5 (tableURL cfg5) \<lparr>remote = mixed_table, sent = []\<rparr>) = Inr 1
   \<and> creatorLicences cfg5 = 5
   \<and> fst (check feature_service cfg5 \<lparr>remote = mixed_table, sent = []\<rparr>)
       = Inr [(''status'', Str ''success''), (''licences'', Str ''4''),
              (''message'', Str ''there exist 4 remaining creator licences.'')]"
proof -
  let ?c = "\<lparr>remote = mixed_table, sent = []\<rparr> :: (int, int table) connection"
  have c: "creatorLicences cfg5 = 5" by (simp add: cfg5_def)
  have f: "fst (getRecords feature_service cfg5 (tableURL cfg5) ?c) = Inr 1"
    by (simp add: getRecords_table mixed_table_def unexpired_def upcoming_def eval_nat_numeral)
  then have h: "getRecords feature_service cfg5 (tableURL cfg5) ?c =
     (Inr 1, snd (getRecords feature_service cfg5 (tableURL cfg5) ?c))"
    by (metis prod.collapse)
  have d: "str_int 4 = ''4''" by (simp add: str_int_def digits.simps)
  from check_reports_free_licences [OF h] c f d
  show ?thesis by (simp add: check_success_def)
qed

text \<open>
  C5. When the insert of an \<^verbatim>\<open>/add\<close> request is answered with status 200 (and both dates
  can be formatted), the response has status success and its message reports
  \<open>creatorLicences - A - 1\<close> remaining licences, where \<open>A\<close> is the count that
  \<^verbatim>\<open>getRecords\<close> returned in the same request.
\<close>

theorem add_success_reports_remaining:
  assumes "getRecords srv cfg (tableURL cfg) c = (Inr A, c1)"
    and "A < creatorLicences cfg"
    and "float_add plat now (duration cfg * 60000) = Some e"
    and "getToken srv (tokenURL cfg) (config.username cfg) (password cfg) (expiration cfg) c1
           = (Inr token, c2)"
    and "requests_post srv
           (AddFeatures (tableURL cfg) token
              [\<lparr>id_attr = ID item, user_attr = Item.username item, start_attr = now, end_attr = e\<rparr>]
              True) c2 = (Response 200 body, c3)"
    and "strftime plat now = Some dateNow"
    and "strftime plat e = Some endNow"
  shows "create_item srv plat cfg now item c
           = (Inr (add_succeeded cfg item dateNow endNow A), c3)
       \<and> map_of (add_succeeded cfg item dateNow endNow A) ''status'' = Some (Str ''success'')
       \<and> map_of (add_succeeded cfg item dateNow endNow A) ''message''
           = Some (Str (''remaining creator licences: '' @ str_int (creatorLicences cfg - A - 1)))"
  using assms add_feature_run [of plat now cfg e srv c1 token c2 item "Response 200 body" c3 A]
  by (simp add: create_item_def add_succeeded_def)

text \<open>Two licences, no lease: the request for \<^verbatim>\<open>u1\<close> succeeds and reports one remaining licence.\<close>

theorem add_success_reports_remaining_witness:
  "create_item feature_service int_platform cfg0 1000 u1 \<lparr>remote = empty_table, sent = []\<rparr> =
     (Inr [(''ID'', Str ''u1''), (''creator'', Null), (''start'', Str ''1000''),
           (''end'', Str ''1801000''), (''remaining (minutes)'', Str ''30''),
           (''status'', Str ''success''),
           (''message'', Str ''remaining creator licences: 1'')],
      \<lparr>remote = \<lparr>features = [\<lparr>id_attr = ''u1'', user_attr = None, start_attr = 1000,
                                end_attr = 1801000\<rparr>],
                  CURRENT_TIMESTAMP = 1000, plan = []\<rparr>,
       sent = [GenerateToken (tokenURL cfg0) ''admin'' ''secret'' 60,
               DeleteFeatures (tableURL cfg0) ''token'' ''end_ < CURRENT_TIMESTAMP'',
               Query (tableURL cfg0) ''token'' ''1=1'',
               GenerateToken (tokenURL cfg0) ''admin'' ''secret'' 60,
               AddFeatures (tableURL cfg0) ''token''
                 [\<lparr>id_attr = ''u1'', user_attr = None, start_attr = 1000, end_attr = 1801000\<rparr>]
                 True]\<rparr>)"
proof -
  let ?c = "\<lparr>remote = empty_table, sent = []\<rparr> :: (int, int table) connection"
  let ?s1 = "[GenerateToken (tokenURL cfg0) ''admin'' ''secret'' 60,
              DeleteFeatures (tableURL cfg0) ''token'' ''end_ < CURRENT_TIMESTAMP'',
              Query (tableURL cfg0) ''token'' ''1=1''] :: int request list"
  let ?c1 = "\<lparr>remote = empty_table, sent = ?s1\<rparr> :: (int, int table) connection"
  let ?c2 = "\<lparr>remote = empty_table,
              sent = ?s1 @ [GenerateToken (tokenURL cfg0) ''admin'' ''secret'' 60]\<rparr>
             :: (int, int table) connection"
  let ?l = "\<lparr>id_attr = ''u1'', user_attr = None, start_attr = 1000, end_attr = 1801000\<rparr> :: int lease"
  let ?c3 = "\<lparr>remote = \<lparr>features = [?l], CURRENT_TIMESTAMP = 1000, plan = []\<rparr>,
              sent = ?s1 @ [GenerateToken (tokenURL cfg0) ''admin'' ''secret'' 60,
                            AddFeatures (tableURL cfg0) ''token'' [?l] True]\<rparr>
             :: (int, int table) connection"
  have h1: "getRecords feature_service cfg0 (tableURL cfg0) ?c = (Inr 0, ?c1)"
    by (simp add: getRecords_table empty_table_def unexpired_def upcoming_def eval_nat_numeral
          cfg0_def)
  have h2: "0 < creatorLicences cfg0" by (simp add: cfg0_def)
  have h3: "float_add int_platform 1000 (duration cfg0 * 60000) = Some 1801000"
    by (simp add: int_platform_def cfg0_def)
  have h4: "getToken feature_service (tokenURL cfg0) (config.username cfg0) (password cfg0)
              (expiration cfg0) ?c1 = (Inr ''token'', ?c2)"
    by (simp add: getToken_table empty_table_def upcoming_def cfg0_def)
  have h5: "requests_post feature_service
              (AddFeatures (tableURL cfg0) ''token''
                 [\<lparr>id_attr = ID u1, user_attr = Item.username u1, start_attr = 1000,
                   end_attr = 1801000\<rparr>] True) ?c2 = (Response 200 OtherJson, ?c3)"
    by (simp add: requests_post_table feature_service_def empty_table_def upcoming_def u1_def)
  have h6: "strftime int_platform 1000 = Some ''1000''"
    by (simp add: int_platform_def str_int_def digits.simps)
  have h7: "strftime int_platform 1801000 = Some ''1801000''"
    by (simp add: int_platform_def str_int_def digits.simps)
  have d: "str_int 30 = ''30''" "str_int 1 = ''1''"
    by (simp_all add: str_int_def digits.simps)
  from add_success_reports_remaining [OF h1 h2 h3 h4 h5 h6 h7] d
  show ?thesis by (simp add: add_succeeded_def u1_def opt_str_def cfg0_def)
qed

text \<open>
  C6. When \<open>creatorLicences \<le> A\<close>, \<^verbatim>\<open>/add\<close> answers with the failure response and ends
  in the very connection \<^verbatim>\<open>getRecords\<close> left: the remote state is the one after the purge,
  and the requests sent are the three of \<^verbatim>\<open>getRecords\<close> (one token request, the delete,
  the query), so no second token request and no insert.
\<close>

theorem denied_add_sends_nothing_more:
  assumes "getRecords srv cfg (tableURL cfg) c = (Inr A, c1)"
    and "creatorLicences cfg \<le> A"
  shows "create_item srv plat cfg now item c = (Inr (no_licences item), c1)
       \<and> map_of (no_licences item) ''status'' = Some (Str ''failed'')
       \<and> (\<exists>tok. sent c1 = sent c @
             [GenerateToken (tokenURL cfg) (config.username cfg) (password cfg) (expiration cfg),
              DeleteFeatures (tableURL cfg) tok ''end_ < CURRENT_TIMESTAMP'',
              Query (tableURL cfg) tok ''1=1''])"
  using assms getRecords_sent [OF assms(1)]
  by (simp add: create_item_def no_licences_def)

text \<open>Two licences, two unexpired leases: the request for \<^verbatim>\<open>u3\<close> is denied, the table is as before.\<close>

theorem denied_add_sends_nothing_more_witness:
  "create_item feature_service int_platform cfg0 1000 u3 \<lparr>remote = full_table, sent = []\<rparr> =
     (Inr [(''ID'', Str ''u3''), (''creator'', Str ''cy''), (''status'', Str ''failed''),
           (''message'', Str ''No creator licences available'')],
      \<lparr>remote = full_table,
       sent = [GenerateToken (tokenURL cfg0) ''admin'' ''secret'' 60,
               DeleteFeatures (tableURL cfg0) ''token'' ''end_ < CURRENT_TIMESTAMP'',
               Query (tableURL cfg0) ''token'' ''1=1'']\<rparr>)"
proof -
  let ?c = "\<lparr>remote = full_table, sent = []\<rparr> :: (int, int table) connection"
  let ?c1 = "\<lparr>remote = full_table,
              sent = [GenerateToken (tokenURL cfg0) ''admin'' ''secret'' 60,
                      DeleteFeatures (tableURL cfg0) ''token'' ''end_ < CURRENT_TIMESTAMP'',
                      Query (tableURL cfg0) ''token'' ''1=1'']\<rparr> :: (int, int table) connection"
  have h1: "getRecords feature_service cfg0 (tableURL cfg0) ?c = (Inr 2, ?c1)"
    by (simp add: getRecords_table full_table_def unexpired_def upcoming_def eval_nat_numeral
          cfg0_def)
  have h2: "creatorLicences cfg0 \<le> 2" by (simp add: cfg0_def)
  from denied_add_sends_nothing_more [OF h1 h2, of int_platform 1000 u3]
  show ?thesis by (simp add: no_licences_def u3_def opt_str_def)
qed


text \<open>
  C7. A granted \<^verbatim>\<open>/add\<close> request whose second token request succeeds sends one insert: a
  batch of the single record \<open>{id, user_, start, end_}\<close> built from the item, the clock
  reading and the computed expiry, with rollback-on-failure set. What the handler returns
  follows the status code of the reply: status success only on 200; on any other code the
  failure response (an Exception when the body of that reply cannot be read as JSON for
  the log line, or when the call itself raises).
\<close>

theorem insert_is_single_feature_batch:
  assumes "getRecords srv cfg (tableURL cfg) c = (Inr A, c1)"
    and "A < creatorLicences cfg"
    and "float_add plat now (duration cfg * 60000) = Some e"
    and "getToken srv (tokenURL cfg) (config.username cfg) (password cfg) (expiration cfg) c1
           = (Inr token, c2)"
    and "requests_post srv
           (AddFeatures (tableURL cfg) token
              [\<lparr>id_attr = ID item, user_attr = Item.username item, start_attr = now, end_attr = e\<rparr>]
              True) c2 = (r, c3)"
  shows "snd (create_item srv plat cfg now item c) = c3
       \<and> (\<exists>tok. sent c3 = sent c @
             [GenerateToken (tokenURL cfg) (config.username cfg) (password cfg) (expiration cfg),
              DeleteFeatures (tableURL cfg) tok ''end_ < CURRENT_TIMESTAMP'',
              Query (tableURL cfg) tok ''1=1'',
              GenerateToken (tokenURL cfg) (config.username cfg) (password cfg) (expiration cfg),
              AddFeatures (tableURL cfg) token
                [\<lparr>id_attr = ID item, user_attr = Item.username item, start_attr = now,
                  end_attr = e\<rparr>] True])
       \<and> (status_of (create_item srv plat cfg now item c) = Some (Str ''success'')
            \<longrightarrow> (\<exists>body. r = Response 200 body))
       \<and> (\<forall>body. r = Response 200 body \<longrightarrow>
             fst (create_item srv plat cfg now item c) =
               (case strftime plat now of
                  None \<Rightarrow> Inl Exception
                | Some dateNow \<Rightarrow>
                    (case strftime plat e of
                       None \<Rightarrow> Inl Exception
                     | Some endNow \<Rightarrow> Inr (add_succeeded cfg item dateNow endNow A))))
       \<and> (\<forall>code body. r = Response code body \<and> code \<noteq> 200 \<longrightarrow>
             fst (create_item srv plat cfg now item c) =
               (if body = NotJson then Inl Exception else Inr (add_failed item)))
       \<and> (r = ConnectionError \<longrightarrow> fst (create_item srv plat cfg now item c) = Inl Exception)"
proof -
  have run: "create_item srv plat cfg now item c = add_feature srv plat cfg now item A c1"
    using assms(1,2) by (simp add: create_item_def)
  note af = add_feature_run [OF assms(3,4,5), of A]
  have s: "snd (create_item srv plat cfg now item c) = c3"
    unfolding run af by (simp split: reply.splits option.splits)
  from getRecords_sent [OF assms(1)] getToken_sent [OF assms(4)] requests_post_sent [OF assms(5)]
  have t: "\<exists>tok. sent c3 = sent c @
             [GenerateToken (tokenURL cfg) (config.username cfg) (password cfg) (expiration cfg),
              DeleteFeatures (tableURL cfg) tok ''end_ < CURRENT_TIMESTAMP'',
              Query (tableURL cfg) tok ''1=1'',
              GenerateToken (tokenURL cfg) (config.username cfg) (password cfg) (expiration cfg),
              AddFeatures (tableURL cfg) token
                [\<lparr>id_attr = ID item, user_attr = Item.username item, start_attr = now,
                  end_attr = e\<rparr>] True]"
    by auto
  have u: "status_of (create_item srv plat cfg now item c) = Some (Str ''success'')
            \<longrightarrow> (\<exists>body. r = Response 200 body)"
    unfolding run af
    by (simp add: status_of_def add_failed_def split: reply.splits option.splits)
  have v: "\<forall>body. r = Response 200 body \<longrightarrow>
             fst (create_item srv plat cfg now item c) =
               (case strftime plat now of
                  None \<Rightarrow> Inl Exception
                | Some dateNow \<Rightarrow>
                    (case strftime plat e of
                       None \<Rightarrow> Inl Exception
                     | Some endNow \<Rightarrow> Inr (add_succeeded cfg item dateNow endNow A)))"
    unfolding run af by (simp split: option.splits)
  have w: "\<forall>code body. r = Response code body \<and> code \<noteq> 200 \<longrightarrow>
             fst (create_item srv plat cfg now item c) =
               (if body = NotJson then Inl Exception else Inr (add_failed item))"
    unfolding run af by simp
  have x: "r = ConnectionError \<longrightarrow> fst (create_item srv plat cfg now item c) = Inl Exception"
    unfolding run af by simp
  from s t u v w x show ?thesis by blast
qed


text \<open>The insert is refused with status 500: the failure response, after exactly one insert request.\<close>

theorem insert_is_single_feature_batch_witness:
  "create_item feature_service int_platform cfg0 1000 u1 \<lparr>remote = refusing_table, sent = []\<rparr> =
     (Inr [(''ID'', Str ''u1''), (''creator'', Null), (''status'', Str ''failed''),
           (''message'', Str ''Failed to add feature'')],
      \<lparr>remote = \<lparr>features = [], CURRENT_TIMESTAMP = 1000, plan = []\<rparr>,
       sent = [GenerateToken (tokenURL cfg0) ''admin'' ''secret'' 60,
               DeleteFeatures (tableURL cfg0) ''token'' ''end_ < CURRENT_TIMESTAMP'',
               Query (tableURL cfg0) ''token'' ''1=1'',
               GenerateToken (tokenURL cfg0) ''admin'' ''secret'' 60,
               AddFeatures (tableURL cfg0) ''token''
                 [\<lparr>id_attr = ''u1'', user_attr = None, start_attr = 1000, end_attr = 1801000\<rparr>]
                 True]\<rparr>)"
proof -
  let ?c = "\<lparr>remote = refusing_table, sent = []\<rparr> :: (int, int table) connection"
  let ?s1 = "[GenerateToken (tokenURL cfg0) ''admin'' ''secret'' 60,
              DeleteFeatures (tableURL cfg0) ''token'' ''end_ < CURRENT_TIMESTAMP'',
              Query (tableURL cfg0) ''token'' ''1=1''] :: int request list"
  let ?c1 = "\<lparr>remote = \<lparr>features = [], CURRENT_TIMESTAMP = 1000, plan = [Served, Refused]\<rparr>,
              sent = ?s1\<rparr> :: (int, int table) connection"
  let ?c2 = "\<lparr>remote = \<lparr>features = [], CURRENT_TIMESTAMP = 1000, plan = [Refused]\<rparr>,
              sent = ?s1 @ [GenerateToken (tokenURL cfg0) ''admin'' ''secret'' 60]\<rparr>
             :: (int, int table) connection"
  let ?l = "\<lparr>id_attr = ''u1'', user_attr = None, start_attr = 1000, end_attr = 1801000\<rparr> :: int lease"
  let ?c3 = "\<lparr>remote = \<lparr>features = [], CURRENT_TIMESTAMP = 1000, plan = []\<rparr>,
              sent = ?s1 @ [GenerateToken (tokenURL cfg0) ''admin'' ''secret'' 60,
                            AddFeatures (tableURL cfg0) ''token'' [?l] True]\<rparr>
             :: (int, int table) connection"
  have h1: "getRecords feature_service cfg0 (tableURL cfg0) ?c = (Inr 0, ?c1)"
    by (simp add: getRecords_table refusing_table_def unexpired_def upcoming_def eval_nat_numeral
          cfg0_def)
  have h2: "0 < creatorLicences cfg0" by (simp add: cfg0_def)
  have h3: "float_add int_platform 1000 (duration cfg0 * 60000) = Some 1801000"
    by (simp add: int_platform_def cfg0_def)
  have h4: "getToken feature_service (tokenURL cfg0) (config.username cfg0) (password cfg0)
              (expiration cfg0) ?c1 = (Inr ''token'', ?c2)"
    by (simp add: getToken_table upcoming_def cfg0_def)
  have h5: "requests_post feature_service
              (AddFeatures (tableURL cfg0) ''token''
                 [\<lparr>id_attr = ID u1, user_attr = Item.username u1, start_attr = 1000,
                   end_attr = 1801000\<rparr>] True) ?c2 = (Response 500 OtherJson, ?c3)"
    by (simp add: requests_post_table feature_service_def upcoming_def u1_def)
  from insert_is_single_feature_batch [OF h1 h2 h3 h4 h5]
  have "snd (create_item feature_service int_platform cfg0 1000 u1 ?c) = ?c3"
    and "fst (create_item feature_service int_platform cfg0 1000 u1 ?c) = Inr (add_failed u1)"
    by simp_all
  then have "create_item feature_service int_platform cfg0 1000 u1 ?c = (Inr (add_failed u1), ?c3)"
    by (metis prod.collapse)
  then show ?thesis by (simp add: add_failed_def u1_def opt_str_def)
qed




subsection \<open>The expiry of a lease\<close>

text \<open>
  C3. The clock reading \<open>start\<close> is a float, and so is the expiry that a granted \<^verbatim>\<open>/add\<close>
  request computes and sends: the float sum of \<open>start\<close> and the integer
  \<open>duration * 60000\<close>. The record sent carries exactly \<open>start + duration * 60000\<close>
  whenever that sum is itself a binary64 value, \<open>m * 2 ^ q\<close> with \<open>\<bar>m\<bar> < 2 ^ 53\<close> and
  \<open>- 1074 \<le> q \<le> 971\<close>, and \<open>\<bar>duration * 60000\<bar> < 2 ^ 53\<close>.
\<close>

theorem lease_end_exact_when_sum_is_binary64:
  assumes "getRecords srv cfg (tableURL cfg) c = (Inr A, c1)"
    and "A < creatorLicences cfg"
    and "getToken srv (tokenURL cfg) (config.username cfg) (password cfg) (expiration cfg) c1
           = (Inr token, c2)"
    and "\<bar>duration cfg * 60000\<bar> < 2 ^ 53"
    and "start + of_int (duration cfg * 60000) = of_int m * 2 powi q"
    and "\<bar>m\<bar> < 2 ^ 53" and "- 1074 \<le> q" and "q \<le> 971"
  shows "float_add (binary64 fmt) (Finite start) (duration cfg * 60000)
           = Some (Finite (start + of_int (duration cfg * 60000)))
       \<and> snd (create_item srv (binary64 fmt) cfg (Finite start) item c) =
           snd (requests_post srv
                  (AddFeatures (tableURL cfg) token
                     [\<lparr>id_attr = ID item, user_attr = Item.username item,
                       start_attr = Finite start,
                       end_attr = Finite (start + of_int (duration cfg * 60000))\<rparr>] True) c2)"
proof -
  have fa: "float_add (binary64 fmt) (Finite start) (duration cfg * 60000)
              = Some (Finite (start + of_int (duration cfg * 60000)))"
    using double_add_exact [OF assms(4,5,6,7,8)] by (simp add: binary64_def)
  have "create_item srv (binary64 fmt) cfg (Finite start) item c
          = add_feature srv (binary64 fmt) cfg (Finite start) item A c1"
    using assms(1,2) by (simp add: create_item_def)
  with snd_add_feature [OF fa assms(3), of item A] fa show ?thesis by simp
qed

text \<open>
  A clock reading of November 2026 with a fractional part, and a duration of 30 minutes:
  the sum has 53 binary digits at the same exponent, and the record sent carries it.
\<close>

theorem lease_end_exact_when_sum_is_binary64_witness:
  "features (remote (snd (create_item feature_service (binary64 date_stub) cfg0
                            (Finite (7217889280000001 / 4096)) u1
                            \<lparr>remote = idle_table, sent = []\<rparr>)))
     = [\<lparr>id_attr = ''u1'', user_attr = None, start_attr = Finite (7217889280000001 / 4096),
         end_attr = Finite (7217889280000001 / 4096 + 1800000)\<rparr>]"
proof -
  let ?c = "\<lparr>remote = idle_table, sent = []\<rparr> :: (pyfloat, pyfloat table) connection"
  let ?s1 = "[GenerateToken (tokenURL cfg0) ''admin'' ''secret'' 60,
              DeleteFeatures (tableURL cfg0) ''token'' ''end_ < CURRENT_TIMESTAMP'',
              Query (tableURL cfg0) ''token'' ''1=1''] :: pyfloat request list"
  let ?c1 = "\<lparr>remote = idle_table, sent = ?s1\<rparr> :: (pyfloat, pyfloat table) connection"
  let ?c2 = "\<lparr>remote = idle_table,
              sent = ?s1 @ [GenerateToken (tokenURL cfg0) ''admin'' ''secret'' 60]\<rparr>
             :: (pyfloat, pyfloat table) connection"
  have h1: "getRecords feature_service cfg0 (tableURL cfg0) ?c = (Inr 0, ?c1)"
    by (simp add: getRecords_table idle_table_def unexpired_def upcoming_def eval_nat_numeral
          cfg0_def)
  have h2: "0 < creatorLicences cfg0" by (simp add: cfg0_def)
  have h3: "getToken feature_service (tokenURL cfg0) (config.username cfg0) (password cfg0)
              (expiration cfg0) ?c1 = (Inr ''token'', ?c2)"
    by (simp add: getToken_table idle_table_def upcoming_def cfg0_def)
  have h4: "\<bar>duration cfg0 * 60000\<bar> < 2 ^ 53" by (simp add: cfg0_def)
  have h5: "(7217889280000001 / 4096 :: rat) + of_int (duration cfg0 * 60000)
              = of_int 7217896652800001 * 2 powi (- 12)"
    by (simp add: cfg0_def)
  have h6: "\<bar>7217896652800001 :: int\<bar> < 2 ^ 53" by simp
  have d: "duration cfg0 * 60000 = 1800000" by (simp add: cfg0_def)
  from lease_end_exact_when_sum_is_binary64 [OF h1 h2 h3 h4 h5 h6, of date_stub u1]
  have "snd (create_item feature_service (binary64 date_stub) cfg0
               (Finite (7217889280000001 / 4096)) u1 ?c) =
        snd (requests_post feature_service
               (AddFeatures (tableURL cfg0) ''token''
                  [\<lparr>id_attr = ID u1, user_attr = Item.username u1,
                    start_attr = Finite (7217889280000001 / 4096),
                    end_attr = Finite (7217889280000001 / 4096 + of_int (duration cfg0 * 60000))\<rparr>]
                  True) ?c2)"
    by simp
  then show ?thesis
    by (simp add: d requests_post_table feature_service_def idle_table_def upcoming_def u1_def)
qed

text \<open>
  A clock reading of September 2039, just below \<open>2 ^ 41\<close> milliseconds, and the same
  duration: the sum needs 54 binary digits, the tie goes to the even neighbour, and the
  expiry sent is \<open>1 / 4096\<close> of a millisecond below \<open>start + duration * 60000\<close>.
\<close>

theorem lease_end_drift_counterexample:
  "features (remote (snd (create_item feature_service (binary64 date_stub) cfg0
                            (Finite (9007199252481229 / 4096)) u1
                            \<lparr>remote = idle_table, sent = []\<rparr>)))
     = [\<lparr>id_attr = ''u1'', user_attr = None, start_attr = Finite (9007199252481229 / 4096),
         end_attr = Finite (9007206625281228 / 4096)\<rparr>]
   \<and> status_of (create_item feature_service (binary64 date_stub) cfg0
                  (Finite (9007199252481229 / 4096)) u1 \<lparr>remote = idle_table, sent = []\<rparr>)
       = Some (Str ''success'')
   \<and> (9007206625281228 / 4096 :: rat)
       \<noteq> 9007199252481229 / 4096 + of_int (duration cfg0 * 60000)"
proof -
  have bl: "bit_length 2199025055000 = 42"
  proof -
    have "bit_length 2199025055000 = Suc 41"
      by (rule bit_length_eq) simp_all
    then show ?thesis by simp
  qed
  have fl1: "\<lfloor>9007206625281229 / 4096 :: rat\<rfloor> = 2199025055000"
    by (simp add: floor_eq_iff)
  have ex: "exponent (9007206625281229 / 4096) = 41"
    by (simp add: exponent_def fl1 bl)
  have fl2: "\<lfloor>9007206625281229 / 2 :: rat\<rfloor> = 4503603312640614"
    by (simp add: floor_eq_iff)
  have rh: "round_half_even (9007206625281229 / 2) = 4503603312640614"
    by (simp add: round_half_even_def Let_def fl2)
  have x: "(9007199252481229 / 4096 + 1800000 :: rat) = 9007206625281229 / 4096" by simp
  have q: "(9007206625281229 / 4096 :: rat) / 2 powi (- 11) = 9007206625281229 / 2" by simp
  have rs: "round_binary64 (9007199252481229 / 4096 + 1800000) = Finite (9007206625281228 / 4096)"
    unfolding x by (simp add: round_binary64_def Let_def ex q rh)
  have rk: "round_binary64 (of_int 1800000) = Finite (of_int 1800000)"
    by (rule round_binary64_exact [of _ 1800000 0]) simp_all
  have fa: "float_add (binary64 date_stub) (Finite (9007199252481229 / 4096))
              (duration cfg0 * 60000) = Some (Finite (9007206625281228 / 4096))"
    using rk rs by (simp add: binary64_def double_add_def cfg0_def)
  let ?c = "\<lparr>remote = idle_table, sent = []\<rparr> :: (pyfloat, pyfloat table) connection"
  let ?s1 = "[GenerateToken (tokenURL cfg0) ''admin'' ''secret'' 60,
              DeleteFeatures (tableURL cfg0) ''token'' ''end_ < CURRENT_TIMESTAMP'',
              Query (tableURL cfg0) ''token'' ''1=1''] :: pyfloat request list"
  let ?c1 = "\<lparr>remote = idle_table, sent = ?s1\<rparr> :: (pyfloat, pyfloat table) connection"
  let ?c2 = "\<lparr>remote = idle_table,
              sent = ?s1 @ [GenerateToken (tokenURL cfg0) ''admin'' ''secret'' 60]\<rparr>
             :: (pyfloat, pyfloat table) connection"
  let ?l = "\<lparr>id_attr = ''u1'', user_attr = None, start_attr = Finite (9007199252481229 / 4096),
             end_attr = Finite (9007206625281228 / 4096)\<rparr> :: pyfloat lease"
  let ?c3 = "\<lparr>remote = idle_table\<lparr>features := [?l]\<rparr>,
              sent = ?s1 @ [GenerateToken (tokenURL cfg0) ''admin'' ''secret'' 60,
                            AddFeatures (tableURL cfg0) ''token'' [?l] True]\<rparr>
             :: (pyfloat, pyfloat table) connection"
  have gr: "getRecords feature_service cfg0 (tableURL cfg0) ?c = (Inr 0, ?c1)"
    by (simp add: getRecords_table idle_table_def unexpired_def upcoming_def eval_nat_numeral
          cfg0_def)
  have c: "0 < creatorLicences cfg0" by (simp add: cfg0_def)
  have h4: "getToken feature_service (tokenURL cfg0) (config.username cfg0) (password cfg0)
              (expiration cfg0) ?c1 = (Inr ''token'', ?c2)"
    by (simp add: getToken_table idle_table_def upcoming_def cfg0_def)
  have h5: "requests_post feature_service
              (AddFeatures (tableURL cfg0) ''token''
                 [\<lparr>id_attr = ID u1, user_attr = Item.username u1,
                   start_attr = Finite (9007199252481229 / 4096),
                   end_attr = Finite (9007206625281228 / 4096)\<rparr>] True) ?c2
            = (Response 200 OtherJson, ?c3)"
    by (simp add: requests_post_table feature_service_def idle_table_def upcoming_def u1_def)
  have "create_item feature_service (binary64 date_stub) cfg0
          (Finite (9007199252481229 / 4096)) u1 ?c
        = add_feature feature_service (binary64 date_stub) cfg0
            (Finite (9007199252481229 / 4096)) u1 0 ?c1"
    using c by (simp add: create_item_def gr)
  also have "\<dots> = (Inr (add_succeeded cfg0 u1 ''(date)'' ''(date)'' 0), ?c3)"
    unfolding add_feature_run [OF fa h4 h5, of 0]
    by (simp add: binary64_def date_stub_def)
  finally have run: "create_item feature_service (binary64 date_stub) cfg0
                       (Finite (9007199252481229 / 4096)) u1 ?c
                     = (Inr (add_succeeded cfg0 u1 ''(date)'' ''(date)'' 0), ?c3)" .
  have ne: "(9007206625281228 / 4096 :: rat)
              \<noteq> 9007199252481229 / 4096 + of_int (duration cfg0 * 60000)"
    by (simp add: cfg0_def)
  show ?thesis
    unfolding run using ne by (simp add: status_of_def add_succeeded_def)
qed

end
